theory Spec2Isabelle
  imports Main
begin

section \<open>Python values, SQL statements and exceptions\<close>

text \<open>
  The metadata store service (\<^verbatim>\<open>lume_services/services/models/service.py\<close>) builds
  SQLAlchemy statements and hands them to a database driver. Statements are modelled as
  data, so that what reaches the driver can be inspected; Python values that travel as
  keyword arguments or column values are dynamically typed.
\<close>

datatype pyval = PNone | PBool bool | PInt int | PStr string

text \<open>A Python \<^verbatim>\<open>dict\<close> with string keys (\<^verbatim>\<open>**kwargs\<close>, a dependency descriptor), in
  insertion order. Python keeps keys unique; a lookup reads the first binding.\<close>

type_synonym kwargs = "(string \<times> pyval) list"

datatype entity =
  Model | Deployment | Project | Flow | FlowOfFlows | DeploymentDependency | DependencyType

text \<open>\<^verbatim>\<open>select(E).filter_by(**kwargs)\<close>, optionally with \<^verbatim>\<open>.order_by(desc(E.col))\<close> and
  \<^verbatim>\<open>.options(joinedload(E.rel))\<close>.\<close>

record select_stmt =
  select_from :: entity
  filter_by :: kwargs
  order_by_desc :: "string option"
  joinedload :: "string option"

text \<open>A value of an insert statement: a literal, or the scalar sub-query
  \<^verbatim>\<open>select(E.col).filter_by(**kwargs).as_scalar()\<close> evaluated by the engine.\<close>

datatype sql_value = Literal pyval | Scalar entity string kwargs

record insert_stmt =
  insert_into :: entity
  ins_values :: "(string \<times> sql_value) list"

text \<open>What the service asks of the driver, one entry per method call.\<close>

datatype driver_call = Select select_stmt | Insert insert_stmt | InsertMany "insert_stmt list"

datatype exn =
    ModelNotFoundError select_stmt
  | DeploymentNotFoundError select_stmt
  | ProjectNotFoundError select_stmt
  | FlowNotFoundError select_stmt
  | FlowOfFlowsNotFoundError select_stmt
  | ValueError string
  | TypeError
  | KeyError string
  | AttributeError string
  | FileNotFoundError "string option"
  | DriverError string

section \<open>ORM objects\<close>

text \<open>
  An instance of a mapped class is a record of its attributes; the attribute \<^verbatim>\<open>a\<close> of
  class \<^verbatim>\<open>C\<close> is the field \<open>C_a\<close>, which leaves the plain names to the parameters of
  the methods. The service itself reads \<^verbatim>\<open>model_id\<close>, \<^verbatim>\<open>deployment_id\<close>,
  \<^verbatim>\<open>project_name\<close> and \<^verbatim>\<open>flow_id\<close> (logged), \<^verbatim>\<open>flow\<close> (the relationship of a
  FlowOfFlows row to its member flow) and orders on \<^verbatim>\<open>deploy_date\<close>, a timestamp and an
  integer here; the other columns are those of the insert statements and of the spec's
  data model.
\<close>

record Model_obj =
  Model_model_id :: pyval
  Model_author :: pyval
  Model_laboratory :: pyval
  Model_facility :: pyval
  Model_beampath :: pyval
  Model_description :: pyval

record Deployment_obj =
  Deployment_deployment_id :: pyval
  Deployment_model_id :: pyval
  Deployment_version :: pyval
  Deployment_source :: pyval
  Deployment_sha256 :: pyval
  Deployment_image :: pyval
  Deployment_is_live :: pyval
  Deployment_asset_dir :: pyval
  Deployment_deploy_date :: int

record Project_obj =
  Project_project_name :: pyval
  Project_description :: pyval

record Flow_obj =
  Flow_flow_id :: pyval
  Flow_deployment_id :: pyval
  Flow_flow_name :: pyval
  Flow_project_name :: pyval

record FlowOfFlows_obj =
  FlowOfFlows_id :: pyval
  FlowOfFlows_parent_flow_id :: pyval
  FlowOfFlows_flow_id :: pyval
  FlowOfFlows_flow :: Flow_obj

record DependencyType_obj =
  DependencyType_id :: pyval
  DependencyType_type :: pyval

record DeploymentDependency_obj =
  DeploymentDependency_id :: pyval
  DeploymentDependency_deployment_id :: pyval
  DeploymentDependency_name :: pyval
  DeploymentDependency_source :: pyval
  DeploymentDependency_local_source :: pyval
  DeploymentDependency_version :: pyval
  DeploymentDependency_dependency_type_id :: pyval

section \<open>The driver and the world\<close>

text \<open>
  \<^verbatim>\<open>ModelDBService.__init__\<close> receives the driver (\<^verbatim>\<open>model_db\<close>); its class is not part
  of the sources at hand, so the service is modelled over any driver. \<^verbatim>\<open>select\<close> reads the
  store and returns instances of the selected class, hence one typed component per class;
  \<^verbatim>\<open>insert\<close> and \<^verbatim>\<open>insert_many\<close> return the inserted keys and the new store. Each may
  raise.
\<close>

record 'db ModelDB =
  db_select_Model :: "select_stmt \<Rightarrow> 'db \<Rightarrow> exn + Model_obj list"
  db_select_Deployment :: "select_stmt \<Rightarrow> 'db \<Rightarrow> exn + Deployment_obj list"
  db_select_Project :: "select_stmt \<Rightarrow> 'db \<Rightarrow> exn + Project_obj list"
  db_select_Flow :: "select_stmt \<Rightarrow> 'db \<Rightarrow> exn + Flow_obj list"
  db_select_FlowOfFlows :: "select_stmt \<Rightarrow> 'db \<Rightarrow> exn + FlowOfFlows_obj list"
  db_select_DeploymentDependency :: "select_stmt \<Rightarrow> 'db \<Rightarrow> exn + DeploymentDependency_obj list"
  db_insert :: "insert_stmt \<Rightarrow> 'db \<Rightarrow> (exn + pyval list) \<times> 'db"
  db_insert_many :: "insert_stmt list \<Rightarrow> 'db \<Rightarrow> (exn + pyval list) \<times> 'db"

text \<open>A warning of \<^verbatim>\<open>logger.warning(msg, label, value)\<close>.\<close>

type_synonym log_record = "string \<times> string \<times> pyval"

text \<open>The state a call runs in: the store behind the driver, the calls the driver has
  received so far (what a spy driver would record) and the warnings logged.\<close>

record 'db world =
  store :: 'db
  calls :: "driver_call list"
  warnings :: "log_record list"

definition select :: "(select_stmt \<Rightarrow> 'db \<Rightarrow> exn + 'r list) \<Rightarrow> select_stmt \<Rightarrow> 'db world
    \<Rightarrow> (exn + 'r list) \<times> 'db world" where
  "select sel query w = (sel query (store w), w\<lparr>calls := calls w @ [Select query]\<rparr>)"

definition insert_one :: "'db ModelDB \<Rightarrow> insert_stmt \<Rightarrow> 'db world \<Rightarrow> (exn + pyval list) \<times> 'db world" where
  "insert_one db stmt w =
     (case db_insert db stmt (store w) of
        (r, s) \<Rightarrow> (r, w\<lparr>store := s, calls := calls w @ [Insert stmt]\<rparr>))"

definition insert_many :: "'db ModelDB \<Rightarrow> insert_stmt list \<Rightarrow> 'db world
    \<Rightarrow> (exn + pyval list) \<times> 'db world" where
  "insert_many db stmts w =
     (case db_insert_many db stmts (store w) of
        (r, s) \<Rightarrow> (r, w\<lparr>store := s, calls := calls w @ [InsertMany stmts]\<rparr>))"

definition warning :: "string \<Rightarrow> string \<Rightarrow> pyval \<Rightarrow> 'db world \<Rightarrow> 'db world" where
  "warning msg label v w = w\<lparr>warnings := warnings w @ [(msg, label, v)]\<rparr>"

section \<open>Calling conventions\<close>

text \<open>
  Python binds the positional and keyword arguments of a call to the parameters of a
  \<^verbatim>\<open>def\<close> (after \<^verbatim>\<open>self\<close>): too many positional arguments, an unexpected keyword, a
  parameter given twice or a parameter without value and without default raise
  \<^verbatim>\<open>TypeError\<close>. The result lists the parameters' values in declaration order.
\<close>

definition bind_args :: "string list \<Rightarrow> kwargs \<Rightarrow> pyval list \<Rightarrow> kwargs \<Rightarrow> exn + pyval list" where
  "bind_args params defaults args kwargs =
     (if length params < length args then Inl TypeError
      else if list_ex (\<lambda>k. k \<notin> set params \<or> k \<in> set (take (length args) params)) (map fst kwargs)
        then Inl TypeError
      else
        (case those (map (\<lambda>p. case map_of kwargs p of Some v \<Rightarrow> Some v | None \<Rightarrow> map_of defaults p)
                      (drop (length args) params)) of
           None \<Rightarrow> Inl TypeError
         | Some vs \<Rightarrow> Inr (args @ vs)))"

text \<open>
  Modelled from the spec: the decorator \<^verbatim>\<open>validate_kwargs_exist\<close> of
  \<^verbatim>\<open>lume_services.services.models.utils\<close> is not part of the sources at hand. The
  spec: "every operation accepting arbitrary named criteria first checks that each supplied
  name is a declared column of the target record type; an unrecognized name fails
  validation before any query is issued". The docstrings of the decorated methods name the
  error: \<^verbatim>\<open>ValueError: Passed kwarg not in ... schema\<close>. The decorated function runs only
  when every keyword name is a declared column.
\<close>

definition validate_kwargs_exist :: "string list
    \<Rightarrow> (pyval list \<Rightarrow> kwargs \<Rightarrow> 'w \<Rightarrow> (exn + 'a) \<times> 'w)
    \<Rightarrow> pyval list \<Rightarrow> kwargs \<Rightarrow> 'w \<Rightarrow> (exn + 'a) \<times> 'w" where
  "validate_kwargs_exist columns func args kwargs w =
     (case find (\<lambda>k. k \<notin> set columns) (map fst kwargs) of
        Some k \<Rightarrow> (Inl (ValueError k), w)
      | None \<Rightarrow> func args kwargs w)"

text \<open>The declared columns of each entity class (\<^verbatim>\<open>schema.py\<close>) are a parameter of the
  service.\<close>

type_synonym schema = "entity \<Rightarrow> string list"


section \<open>The metadata store service\<close>

text \<open>
  Each method of \<^verbatim>\<open>ModelDBService\<close> takes the driver, the positional and the keyword
  arguments of the call and the world, and returns the value or the exception raised,
  with the world after the call. A returned \<^verbatim>\<open>None\<close> is \<^const>\<open>PNone\<close>.
\<close>

subsection \<open>Store operations\<close>

definition store_model :: "'db ModelDB \<Rightarrow> schema \<Rightarrow> pyval list \<Rightarrow> kwargs \<Rightarrow> 'db world
    \<Rightarrow> (exn + pyval) \<times> 'db world" where
  "store_model db columns =
     validate_kwargs_exist (columns Model) (\<lambda>args kwargs w.
       case bind_args [''author'', ''laboratory'', ''facility'', ''beampath'', ''description'']
              [] args kwargs of
         Inr [author, laboratory, facility, beampath, description] \<Rightarrow>
           let insert_stmt = \<lparr>insert_into = Model, ins_values =
                      [(''author'', Literal author),
                       (''laboratory'', Literal laboratory),
                       (''facility'', Literal facility),
                       (''beampath'', Literal beampath),
                       (''description'', Literal description)]\<rparr>
           in (case insert_one db insert_stmt w of
                 (Inl e, w') \<Rightarrow> (Inl e, w')
               | (Inr result, w') \<Rightarrow>
                   if length result \<noteq> 0 then (Inr (result ! 0), w') else (Inr PNone, w'))
       | Inr _ \<Rightarrow> (Inl TypeError, w)
       | Inl e \<Rightarrow> (Inl e, w))"

definition store_deployment :: "'db ModelDB \<Rightarrow> pyval list \<Rightarrow> kwargs \<Rightarrow> 'db world
    \<Rightarrow> (exn + pyval) \<times> 'db world" where
  "store_deployment db =
     (\<lambda>args kwargs w.
       case bind_args [''model_id'', ''version'', ''source'', ''sha256'', ''image'', ''is_live'', ''asset_dir'']
              [(''is_live'', PBool False), (''asset_dir'', PNone)] args kwargs of
         Inr [model_id, version, source, sha256, image', is_live, asset_dir] \<Rightarrow>
           let insert_stmt = \<lparr>insert_into = Deployment, ins_values =
                      [(''model_id'', Literal model_id),
                       (''version'', Literal version),
                       (''source'', Literal source),
                       (''sha256'', Literal sha256),
                       (''image'', Literal image'),
                       (''is_live'', Literal is_live),
                       (''asset_dir'', Literal asset_dir)]\<rparr>
           in (case insert_one db insert_stmt w of
                 (Inl e, w') \<Rightarrow> (Inl e, w')
               | (Inr result, w') \<Rightarrow>
                   if length result \<noteq> 0 then (Inr (result ! 0), w') else (Inr PNone, w'))
       | Inr _ \<Rightarrow> (Inl TypeError, w)
       | Inl e \<Rightarrow> (Inl e, w))"

definition store_project :: "'db ModelDB \<Rightarrow> pyval list \<Rightarrow> kwargs \<Rightarrow> 'db world
    \<Rightarrow> (exn + pyval) \<times> 'db world" where
  "store_project db =
     (\<lambda>args kwargs w.
       case bind_args [''project_name'', ''description'']
              [] args kwargs of
         Inr [project_name, description] \<Rightarrow>
           let insert_stmt = \<lparr>insert_into = Project, ins_values =
                      [(''project_name'', Literal project_name),
                       (''description'', Literal description)]\<rparr>
           in (case insert_one db insert_stmt w of
                 (Inl e, w') \<Rightarrow> (Inl e, w')
               | (Inr result, w') \<Rightarrow>
                   if length result \<noteq> 0 then (Inr (result ! 0), w') else (Inr PNone, w'))
       | Inr _ \<Rightarrow> (Inl TypeError, w)
       | Inl e \<Rightarrow> (Inl e, w))"

definition store_flow :: "'db ModelDB \<Rightarrow> pyval list \<Rightarrow> kwargs \<Rightarrow> 'db world
    \<Rightarrow> (exn + pyval) \<times> 'db world" where
  "store_flow db =
     (\<lambda>args kwargs w.
       case bind_args [''deployment_id'', ''flow_id'', ''flow_name'', ''project_name'']
              [] args kwargs of
         Inr [deployment_id, flow_id, flow_name, project_name] \<Rightarrow>
           let insert_stmt = \<lparr>insert_into = Flow, ins_values =
                      [(''flow_id'', Literal flow_id),
                       (''deployment_id'', Literal deployment_id),
                       (''flow_name'', Literal flow_name),
                       (''project_name'', Literal project_name)]\<rparr>
           in (case insert_one db insert_stmt w of
                 (Inl e, w') \<Rightarrow> (Inl e, w')
               | (Inr result, w') \<Rightarrow>
                   if length result \<noteq> 0 then (Inr (result ! 0), w') else (Inr PNone, w'))
       | Inr _ \<Rightarrow> (Inl TypeError, w)
       | Inl e \<Rightarrow> (Inl e, w))"

subsection \<open>Get operations\<close>

definition get_model :: "'db ModelDB \<Rightarrow> schema \<Rightarrow> pyval list \<Rightarrow> kwargs \<Rightarrow> 'db world
    \<Rightarrow> (exn + Model_obj) \<times> 'db world" where
  "get_model db columns =
     validate_kwargs_exist (columns Model) (\<lambda>args kwargs w.
       if args \<noteq> [] then (Inl TypeError, w)
       else
         let query = \<lparr>select_from = Model, filter_by = kwargs, order_by_desc = None,
                       joinedload = None\<rparr>
         in case select (db_select_Model db) query w of
              (Inl e, w') \<Rightarrow> (Inl e, w')
            | (Inr result, w') \<Rightarrow>
                if length result \<noteq> 0 then
                  (Inr (result ! 0),
                   if length result > 1
                   then warning ''Multiple models returned from query. get_model is returning the                         first result with %s %s''
                          ''model_id'' (Model_model_id (result ! 0)) w'
                   else w')
                else (Inl (ModelNotFoundError query), w'))"

definition get_deployment :: "'db ModelDB \<Rightarrow> schema \<Rightarrow> pyval list \<Rightarrow> kwargs \<Rightarrow> 'db world
    \<Rightarrow> (exn + Deployment_obj) \<times> 'db world" where
  "get_deployment db columns =
     validate_kwargs_exist (columns Deployment) (\<lambda>args kwargs w.
       if args \<noteq> [] then (Inl TypeError, w)
       else
         let query = \<lparr>select_from = Deployment, filter_by = kwargs, order_by_desc = None,
                       joinedload = None\<rparr>
         in case select (db_select_Deployment db) query w of
              (Inl e, w') \<Rightarrow> (Inl e, w')
            | (Inr result, w') \<Rightarrow>
                if length result \<noteq> 0 then
                  (Inr (result ! 0),
                   if length result > 1
                   then warning ''Multiple deployments returned from query. get_deployment is                         returning the first result with %s %s''
                          ''deployment_id'' (Deployment_deployment_id (result ! 0)) w'
                   else w')
                else (Inl (DeploymentNotFoundError query), w'))"

definition get_latest_deployment :: "'db ModelDB \<Rightarrow> schema \<Rightarrow> pyval list \<Rightarrow> kwargs \<Rightarrow> 'db world
    \<Rightarrow> (exn + Deployment_obj) \<times> 'db world" where
  "get_latest_deployment db columns =
     validate_kwargs_exist (columns Deployment) (\<lambda>args kwargs w.
       if args \<noteq> [] then (Inl TypeError, w)
       else
         let query = \<lparr>select_from = Deployment, filter_by = kwargs,
                       order_by_desc = Some ''deploy_date'', joinedload = None\<rparr>
         in case select (db_select_Deployment db) query w of
              (Inl e, w') \<Rightarrow> (Inl e, w')
            | (Inr result, w') \<Rightarrow>
                if length result \<noteq> 0 then (Inr (result ! 0), w')
                else (Inl (DeploymentNotFoundError query), w'))"

definition get_project :: "'db ModelDB \<Rightarrow> schema \<Rightarrow> pyval list \<Rightarrow> kwargs \<Rightarrow> 'db world
    \<Rightarrow> (exn + Project_obj) \<times> 'db world" where
  "get_project db columns =
     validate_kwargs_exist (columns Project) (\<lambda>args kwargs w.
       if args \<noteq> [] then (Inl TypeError, w)
       else
         let query = \<lparr>select_from = Project, filter_by = kwargs, order_by_desc = None,
                       joinedload = None\<rparr>
         in case select (db_select_Project db) query w of
              (Inl e, w') \<Rightarrow> (Inl e, w')
            | (Inr result, w') \<Rightarrow>
                if length result \<noteq> 0 then
                  (Inr (result ! 0),
                   if length result > 1
                   then warning ''Multiple projects returned from query. get_project is returning                         the first result with %s %s''
                          ''name'' (Project_project_name (result ! 0)) w'
                   else w')
                else (Inl (ProjectNotFoundError query), w'))"

definition get_flow :: "'db ModelDB \<Rightarrow> schema \<Rightarrow> pyval list \<Rightarrow> kwargs \<Rightarrow> 'db world
    \<Rightarrow> (exn + Flow_obj) \<times> 'db world" where
  "get_flow db columns =
     validate_kwargs_exist (columns Flow) (\<lambda>args kwargs w.
       if args \<noteq> [] then (Inl TypeError, w)
       else
         let query = \<lparr>select_from = Flow, filter_by = kwargs, order_by_desc = None,
                       joinedload = None\<rparr>
         in case select (db_select_Flow db) query w of
              (Inl e, w') \<Rightarrow> (Inl e, w')
            | (Inr result, w') \<Rightarrow>
                if length result \<noteq> 0 then
                  (Inr (result ! 0),
                   if length result > 1
                   then warning ''Multiple flows returned from query. get_flow is returning the                         first result with %s %s''
                          ''flow_id'' (Flow_flow_id (result ! 0)) w'
                   else w')
                else (Inl (FlowNotFoundError query), w'))"

definition get_flow_of_flows :: "'db ModelDB \<Rightarrow> schema \<Rightarrow> pyval list \<Rightarrow> kwargs \<Rightarrow> 'db world
    \<Rightarrow> (exn + Flow_obj list) \<times> 'db world" where
  "get_flow_of_flows db columns =
     validate_kwargs_exist (columns FlowOfFlows) (\<lambda>args kwargs w.
       if args \<noteq> [] then (Inl TypeError, w)
       else
         let query = \<lparr>select_from = FlowOfFlows, filter_by = kwargs, order_by_desc = None,
                       joinedload = None\<rparr>
         in case select (db_select_FlowOfFlows db) query w of
              (Inl e, w') \<Rightarrow> (Inl e, w')
            | (Inr result, w') \<Rightarrow>
                if length result \<noteq> 0 then (Inr (map FlowOfFlows_flow result), w')
                else (Inl (FlowOfFlowsNotFoundError query), w'))"

definition get_dependencies :: "'db ModelDB \<Rightarrow> pyval list \<Rightarrow> kwargs \<Rightarrow> 'db world
    \<Rightarrow> (exn + DeploymentDependency_obj list) \<times> 'db world" where
  "get_dependencies db =
     (\<lambda>args kwargs w.
       case bind_args [''deployment_id''] [] args kwargs of
         Inr [deployment_id] \<Rightarrow>
           let query = \<lparr>select_from = DeploymentDependency,
                         filter_by = [(''deployment_id'', deployment_id)],
                         order_by_desc = None, joinedload = Some ''dependency_type''\<rparr>
           in (case select (db_select_DeploymentDependency db) query w of
                 (Inl e, w') \<Rightarrow> (Inl e, w')
               | (Inr deps, w') \<Rightarrow>
                   if length deps \<noteq> 0 then (Inr deps, w')
                   else (Inl (DeploymentNotFoundError query), w'))
       | Inr _ \<Rightarrow> (Inl TypeError, w)
       | Inl e \<Rightarrow> (Inl e, w))"

subsection \<open>Dependencies\<close>

text \<open>\<^verbatim>\<open>dep[k]\<close> raises \<^verbatim>\<open>KeyError\<close> on a missing key; \<^verbatim>\<open>dep.get(k)\<close> gives \<^verbatim>\<open>None\<close>.\<close>

definition getitem :: "kwargs \<Rightarrow> string \<Rightarrow> exn + pyval" where
  "getitem d k = (case map_of d k of None \<Rightarrow> Inl (KeyError k) | Some v \<Rightarrow> Inr v)"

definition dict_get :: "kwargs \<Rightarrow> string \<Rightarrow> pyval" where
  "dict_get d k = (case map_of d k of None \<Rightarrow> PNone | Some v \<Rightarrow> v)"

text \<open>The body of the loop of \<^verbatim>\<open>store_dependencies\<close>: the insert statement of one
  descriptor, its type left to a scalar sub-query on \<^verbatim>\<open>DependencyType\<close>.\<close>

definition dependency_stmt :: "pyval \<Rightarrow> kwargs \<Rightarrow> exn + insert_stmt" where
  "dependency_stmt deployment_id dep =
     (case getitem dep ''type'' of
        Inl e \<Rightarrow> Inl e
      | Inr type \<Rightarrow>
     (case getitem dep ''name'' of
        Inl e \<Rightarrow> Inl e
      | Inr name \<Rightarrow>
     (case getitem dep ''source'' of
        Inl e \<Rightarrow> Inl e
      | Inr source \<Rightarrow>
     (case getitem dep ''version'' of
        Inl e \<Rightarrow> Inl e
      | Inr version \<Rightarrow>
          Inr \<lparr>insert_into = DeploymentDependency, ins_values =
                 [(''deployment_id'', Literal deployment_id),
                  (''name'', Literal name),
                  (''source'', Literal source),
                  (''local_source'', Literal (dict_get dep ''local_source'')),
                  (''version'', Literal version),
                  (''dependency_type_id'',
                     Scalar DependencyType ''id'' [(''type'', type)])]\<rparr>))))"

text \<open>The loop: one statement per descriptor, appended in order; the first exception
  ends it.\<close>

fun dependency_stmts :: "pyval \<Rightarrow> kwargs list \<Rightarrow> exn + insert_stmt list" where
  "dependency_stmts deployment_id [] = Inr []"
| "dependency_stmts deployment_id (dep # dependencies) =
     (case dependency_stmt deployment_id dep of
        Inl e \<Rightarrow> Inl e
      | Inr insert_stmt \<Rightarrow>
          (case dependency_stmts deployment_id dependencies of
             Inl e \<Rightarrow> Inl e
           | Inr stmts \<Rightarrow> Inr (insert_stmt # stmts)))"

text \<open>A returned list of keys is \<open>Some\<close> of it, a returned \<^verbatim>\<open>None\<close> is \<open>None\<close>.\<close>

definition store_dependencies :: "'db ModelDB \<Rightarrow> kwargs list \<Rightarrow> pyval \<Rightarrow> 'db world
    \<Rightarrow> (exn + pyval list option) \<times> 'db world" where
  "store_dependencies db dependencies deployment_id w =
     (case dependency_stmts deployment_id dependencies of
        Inl e \<Rightarrow> (Inl e, w)
      | Inr stmts \<Rightarrow>
          (case insert_many db stmts w of
             (Inl e, w') \<Rightarrow> (Inl e, w')
           | (Inr result, w') \<Rightarrow>
               if length result \<noteq> 0 then (Inr (Some result), w') else (Inr None, w')))"

section \<open>The local run backend\<close>

text \<open>
  \<^verbatim>\<open>lume_services/scheduling/prefect/backends/local.py\<close>. The class \<^verbatim>\<open>Backend\<close> is not
  part of the sources at hand: the instance is the list of its attributes, and reading a
  missing one raises \<^verbatim>\<open>AttributeError\<close>. The file service is injected; its
  \<^verbatim>\<open>dir_exists\<close> is a parameter. An \<^verbatim>\<open>Optional[str]\<close> is a \<open>string option\<close>.
\<close>

record LocalRunConfig =
  env :: "(string \<times> string) list"
  working_dir :: "string option"

record LocalRun =
  env :: "(string \<times> string) list"
  working_dir :: "string option"

type_synonym LocalBackend = "(string \<times> string option) list"

definition get_run :: "LocalBackend \<Rightarrow> LocalRunConfig \<Rightarrow> (string \<Rightarrow> string option \<Rightarrow> bool)
    \<Rightarrow> exn + LocalRun" where
  "get_run self run_config dir_exists =
     (case map_of self ''working_dir'' of
        None \<Rightarrow> Inl (AttributeError ''working_dir'')
      | Some self_working_dir \<Rightarrow>
          if \<not> dir_exists ''local'' self_working_dir
          then Inl (FileNotFoundError self_working_dir)
          else Inr \<lparr>LocalRun.env = LocalRunConfig.env run_config,
                    LocalRun.working_dir = LocalRunConfig.working_dir run_config\<rparr>)"


section \<open>A reference schema and engine\<close>

text \<open>
  The schema (\<^verbatim>\<open>schema.py\<close>) and the driver (\<^verbatim>\<open>ModelDB\<close>) are not part of the sources
  at hand; this section models one of each from the spec, for the properties that depend
  on what the store holds and for concrete runs. The engine keeps each table as the list of
  its rows in insertion order, gives a new Model, Deployment or DeploymentDependency the
  next integer key, and runs a batch of inserts as one unit of work.
\<close>

text \<open>
  Modelled from the spec: the declared columns of \<^verbatim>\<open>schema.py\<close>, after the attributes the
  spec's data model lists for each entity. For FlowOfFlows the spec has only "composite id,
  reference to member Flow(s)": the column names \<^verbatim>\<open>id\<close>, \<^verbatim>\<open>parent_flow_id\<close> and
  \<^verbatim>\<open>flow_id\<close> are this model's.
\<close>

definition declared_columns :: schema where
  "declared_columns E =
     (case E of
        Model \<Rightarrow> [''model_id'', ''author'', ''laboratory'', ''facility'', ''beampath'', ''description'']
      | Deployment \<Rightarrow> [''deployment_id'', ''model_id'', ''version'', ''source'', ''sha256'', ''image'', ''is_live'', ''asset_dir'', ''deploy_date'']
      | Project \<Rightarrow> [''project_name'', ''description'']
      | Flow \<Rightarrow> [''flow_id'', ''deployment_id'', ''flow_name'', ''project_name'']
      | FlowOfFlows \<Rightarrow> [''id'', ''parent_flow_id'', ''flow_id'']
      | DependencyType \<Rightarrow> [''id'', ''type'']
      | DeploymentDependency \<Rightarrow> [''id'', ''deployment_id'', ''name'', ''source'', ''local_source'', ''version'', ''dependency_type_id''])"

text \<open>Modelled from the spec: a row of each table of \<^verbatim>\<open>schema.py\<close> as the dictionary of
  its columns.\<close>

definition Model_row :: "Model_obj \<Rightarrow> kwargs" where
  "Model_row r =
     [(''model_id'', Model_model_id r),
      (''author'', Model_author r),
      (''laboratory'', Model_laboratory r),
      (''facility'', Model_facility r),
      (''beampath'', Model_beampath r),
      (''description'', Model_description r)]"

definition Deployment_row :: "Deployment_obj \<Rightarrow> kwargs" where
  "Deployment_row r =
     [(''deployment_id'', Deployment_deployment_id r),
      (''model_id'', Deployment_model_id r),
      (''version'', Deployment_version r),
      (''source'', Deployment_source r),
      (''sha256'', Deployment_sha256 r),
      (''image'', Deployment_image r),
      (''is_live'', Deployment_is_live r),
      (''asset_dir'', Deployment_asset_dir r),
      (''deploy_date'', PInt (Deployment_deploy_date r))]"

definition Project_row :: "Project_obj \<Rightarrow> kwargs" where
  "Project_row r =
     [(''project_name'', Project_project_name r),
      (''description'', Project_description r)]"

definition Flow_row :: "Flow_obj \<Rightarrow> kwargs" where
  "Flow_row r =
     [(''flow_id'', Flow_flow_id r),
      (''deployment_id'', Flow_deployment_id r),
      (''flow_name'', Flow_flow_name r),
      (''project_name'', Flow_project_name r)]"

definition FlowOfFlows_row :: "FlowOfFlows_obj \<Rightarrow> kwargs" where
  "FlowOfFlows_row r =
     [(''id'', FlowOfFlows_id r),
      (''parent_flow_id'', FlowOfFlows_parent_flow_id r),
      (''flow_id'', FlowOfFlows_flow_id r)]"

definition DependencyType_row :: "DependencyType_obj \<Rightarrow> kwargs" where
  "DependencyType_row r =
     [(''id'', DependencyType_id r),
      (''type'', DependencyType_type r)]"

definition DeploymentDependency_row :: "DeploymentDependency_obj \<Rightarrow> kwargs" where
  "DeploymentDependency_row r =
     [(''id'', DeploymentDependency_id r),
      (''deployment_id'', DeploymentDependency_deployment_id r),
      (''name'', DeploymentDependency_name r),
      (''source'', DeploymentDependency_source r),
      (''local_source'', DeploymentDependency_local_source r),
      (''version'', DeploymentDependency_version r),
      (''dependency_type_id'', DeploymentDependency_dependency_type_id r)]"

text \<open>Modelled from the spec: the state of the relational engine behind \<^verbatim>\<open>ModelDB\<close>, the
  seven tables, the key counter and the clock that dates a deployment.\<close>

record database =
  models :: "Model_obj list"
  deployments :: "Deployment_obj list"
  projects :: "Project_obj list"
  flows :: "Flow_obj list"
  flow_of_flows :: "FlowOfFlows_obj list"
  dependency_types :: "DependencyType_obj list"
  deployment_dependencies :: "DeploymentDependency_obj list"
  next_id :: int
  clock :: int

text \<open>Modelled from the spec: \<^verbatim>\<open>filter_by\<close> as the engine evaluates it (equality criteria on
  declared columns): a row matches when each criterion
  equals the row's column.\<close>

definition matches :: "('r \<Rightarrow> kwargs) \<Rightarrow> kwargs \<Rightarrow> 'r \<Rightarrow> bool" where
  "matches row criteria r = list_all (\<lambda>(k, v). map_of (row r) k = Some v) criteria"

text \<open>Modelled from the spec: \<^verbatim>\<open>ModelDB.select\<close> ("returns raw result rows"). A select
  without ordering returns the matching rows in table order.\<close>

definition mem_select :: "('r \<Rightarrow> kwargs) \<Rightarrow> (database \<Rightarrow> 'r list) \<Rightarrow> select_stmt \<Rightarrow> database
    \<Rightarrow> exn + 'r list" where
  "mem_select row table query db =
     (case order_by_desc query of
        None \<Rightarrow> Inr (filter (matches row (filter_by query)) (table db))
      | Some c \<Rightarrow> Inl (DriverError ''order by''))"

text \<open>Modelled from the spec: \<^verbatim>\<open>ModelDB.select\<close> on deployments, which can be ordered by
  \<^verbatim>\<open>deploy_date\<close> descending, latest first.\<close>

definition mem_select_Deployment :: "select_stmt \<Rightarrow> database \<Rightarrow> exn + Deployment_obj list" where
  "mem_select_Deployment query db =
     (if order_by_desc query = Some ''deploy_date''
      then Inr (sort_key (\<lambda>d. - Deployment_deploy_date d)
                  (filter (matches Deployment_row (filter_by query)) (deployments db)))
      else mem_select Deployment_row deployments query db)"

text \<open>Modelled from the spec: the engine's value of a column of an insert statement, a
  literal, or the \<^verbatim>\<open>id\<close> of the first DependencyType the sub-query selects, and NULL when
  there is none or no value is given.\<close>

definition column_value :: "database \<Rightarrow> insert_stmt \<Rightarrow> string \<Rightarrow> pyval" where
  "column_value db stmt c =
     (case map_of (ins_values stmt) c of
        None \<Rightarrow> PNone
      | Some (Literal v) \<Rightarrow> v
      | Some (Scalar E col criteria) \<Rightarrow>
          (if E = DependencyType \<and> col = ''id'' then
             (case filter (matches DependencyType_row criteria) (dependency_types db) of
                [] \<Rightarrow> PNone
              | t # _ \<Rightarrow> DependencyType_id t)
           else PNone))"

text \<open>Modelled from the spec: the engine's execution of one insert, giving the inserted
  primary key and the new store. A dependency whose type resolves to NULL is refused, every
  DeploymentDependency referencing an existing DependencyType.\<close>

definition execute_insert :: "insert_stmt \<Rightarrow> database \<Rightarrow> exn + pyval \<times> database" where
  "execute_insert stmt db =
     (let val = column_value db stmt in
      case insert_into stmt of
        Model \<Rightarrow>
          Inr (PInt (next_id db),
               db\<lparr>models := models db @
                    [\<lparr>Model_model_id = PInt (next_id db), Model_author = val ''author'',
                      Model_laboratory = val ''laboratory'', Model_facility = val ''facility'',
                      Model_beampath = val ''beampath'', Model_description = val ''description''\<rparr>],
                  next_id := next_id db + 1\<rparr>)
      | Deployment \<Rightarrow>
          Inr (PInt (next_id db),
               db\<lparr>deployments := deployments db @
                    [\<lparr>Deployment_deployment_id = PInt (next_id db),
                      Deployment_model_id = val ''model_id'', Deployment_version = val ''version'',
                      Deployment_source = val ''source'', Deployment_sha256 = val ''sha256'',
                      Deployment_image = val ''image'', Deployment_is_live = val ''is_live'',
                      Deployment_asset_dir = val ''asset_dir'',
                      Deployment_deploy_date = clock db\<rparr>],
                  next_id := next_id db + 1\<rparr>)
      | Project \<Rightarrow>
          Inr (val ''project_name'',
               db\<lparr>projects := projects db @
                    [\<lparr>Project_project_name = val ''project_name'',
                      Project_description = val ''description''\<rparr>]\<rparr>)
      | Flow \<Rightarrow>
          Inr (val ''flow_id'',
               db\<lparr>flows := flows db @
                    [\<lparr>Flow_flow_id = val ''flow_id'', Flow_deployment_id = val ''deployment_id'',
                      Flow_flow_name = val ''flow_name'',
                      Flow_project_name = val ''project_name''\<rparr>]\<rparr>)
      | DeploymentDependency \<Rightarrow>
          if val ''dependency_type_id'' = PNone then Inl (DriverError ''dependency_type_id'')
          else
            Inr (PInt (next_id db),
                 db\<lparr>deployment_dependencies := deployment_dependencies db @
                      [\<lparr>DeploymentDependency_id = PInt (next_id db),
                        DeploymentDependency_deployment_id = val ''deployment_id'',
                        DeploymentDependency_name = val ''name'',
                        DeploymentDependency_source = val ''source'',
                        DeploymentDependency_local_source = val ''local_source'',
                        DeploymentDependency_version = val ''version'',
                        DeploymentDependency_dependency_type_id = val ''dependency_type_id''\<rparr>],
                    next_id := next_id db + 1\<rparr>)
      | _ \<Rightarrow> Inl (DriverError ''insert''))"

text \<open>Modelled from the spec: \<^verbatim>\<open>ModelDB.insert\<close>, whose result holds the inserted key.\<close>

definition mem_insert :: "insert_stmt \<Rightarrow> database \<Rightarrow> (exn + pyval list) \<times> database" where
  "mem_insert stmt db =
     (case execute_insert stmt db of
        Inl e \<Rightarrow> (Inl e, db)
      | Inr (key, db') \<Rightarrow> (Inr [key], db'))"

text \<open>Modelled from the spec: the statements of a batch, executed in order; the first
  refusal ends the batch.\<close>

fun execute_all :: "insert_stmt list \<Rightarrow> database \<Rightarrow> exn + pyval list \<times> database" where
  "execute_all [] db = Inr ([], db)"
| "execute_all (stmt # stmts) db =
     (case execute_insert stmt db of
        Inl e \<Rightarrow> Inl e
      | Inr (key, db') \<Rightarrow>
          (case execute_all stmts db' of
             Inl e \<Rightarrow> Inl e
           | Inr (keys, db'') \<Rightarrow> Inr (key # keys, db'')))"

text \<open>Modelled from the spec: \<^verbatim>\<open>ModelDB.insert_many\<close>. A batch is committed as a whole or
  not at all.\<close>

definition mem_insert_many :: "insert_stmt list \<Rightarrow> database \<Rightarrow> (exn + pyval list) \<times> database" where
  "mem_insert_many stmts db =
     (case execute_all stmts db of
        Inl e \<Rightarrow> (Inl e, db)
      | Inr (keys, db') \<Rightarrow> (Inr keys, db'))"

text \<open>Modelled from the spec: the driver \<^verbatim>\<open>ModelDB\<close> over this engine.\<close>

definition mem_db :: "database ModelDB" where
  "mem_db =
     \<lparr>db_select_Model = mem_select Model_row models,
      db_select_Deployment = mem_select_Deployment,
      db_select_Project = mem_select Project_row projects,
      db_select_Flow = mem_select Flow_row flows,
      db_select_FlowOfFlows = mem_select FlowOfFlows_row flow_of_flows,
      db_select_DeploymentDependency = mem_select DeploymentDependency_row deployment_dependencies,
      db_insert = mem_insert,
      db_insert_many = mem_insert_many\<rparr>"

text \<open>A store with empty tables, and a world with no call made and nothing logged.\<close>

definition empty_database :: database where
  "empty_database =
     \<lparr>models = [], deployments = [], projects = [], flows = [], flow_of_flows = [],
      dependency_types = [], deployment_dependencies = [], next_id = 1, clock = 0\<rparr>"

definition world0 :: "database \<Rightarrow> database world" where
  "world0 db = \<lparr>store = db, calls = [], warnings = []\<rparr>"

section \<open>Notions of the claims\<close>

text \<open>A criteria set is valid for an entity when each of its names is a declared column.\<close>

definition declared :: "string list \<Rightarrow> kwargs \<Rightarrow> bool" where
  "declared columns kwargs = list_all (\<lambda>k. k \<in> set columns) (map fst kwargs)"

text \<open>The statement \<^verbatim>\<open>select(E).filter_by(**kwargs)\<close>.\<close>

definition criteria_query :: "entity \<Rightarrow> kwargs \<Rightarrow> select_stmt" where
  "criteria_query E kwargs =
     \<lparr>select_from = E, filter_by = kwargs, order_by_desc = None, joinedload = None\<rparr>"

text \<open>The statement of \<^verbatim>\<open>get_dependencies\<close>.\<close>

definition dependencies_query :: "pyval \<Rightarrow> select_stmt" where
  "dependencies_query deployment_id =
     \<lparr>select_from = DeploymentDependency, filter_by = [(''deployment_id'', deployment_id)],
      order_by_desc = None, joinedload = Some ''dependency_type''\<rparr>"

subsection \<open>A small store\<close>

definition example_model :: "int \<Rightarrow> string \<Rightarrow> Model_obj" where
  "example_model i d =
     \<lparr>Model_model_id = PInt i, Model_author = PStr ''ada'', Model_laboratory = PStr ''slac'',
      Model_facility = PStr ''lcls'', Model_beampath = PStr ''cu_hxr'',
      Model_description = PStr d\<rparr>"

definition example_deployment :: "int \<Rightarrow> int \<Rightarrow> Deployment_obj" where
  "example_deployment i t =
     \<lparr>Deployment_deployment_id = PInt i, Deployment_model_id = PInt 1,
      Deployment_version = PStr ''0.1'', Deployment_source = PStr ''github'',
      Deployment_sha256 = PStr ''abc'', Deployment_image = PStr ''img'',
      Deployment_is_live = PBool False, Deployment_asset_dir = PNone,
      Deployment_deploy_date = t\<rparr>"

definition example_flow :: "string \<Rightarrow> Flow_obj" where
  "example_flow f =
     \<lparr>Flow_flow_id = PStr f, Flow_deployment_id = PInt 2, Flow_flow_name = PStr f,
      Flow_project_name = PStr ''proj''\<rparr>"

definition example_member :: "int \<Rightarrow> string \<Rightarrow> FlowOfFlows_obj" where
  "example_member i f =
     \<lparr>FlowOfFlows_id = PInt i, FlowOfFlows_parent_flow_id = PStr ''composite'',
      FlowOfFlows_flow_id = PStr f, FlowOfFlows_flow = example_flow f\<rparr>"

definition example_database :: database where
  "example_database =
     \<lparr>models = [example_model 1 ''first'', example_model 7 ''second''],
      deployments = [example_deployment 2 20, example_deployment 3 30, example_deployment 4 10],
      projects = [\<lparr>Project_project_name = PStr ''proj'', Project_description = PStr ''p''\<rparr>,
                  \<lparr>Project_project_name = PStr ''other'', Project_description = PStr ''p''\<rparr>],
      flows = [example_flow ''f1'', example_flow ''f2''],
      flow_of_flows = [example_member 5 ''f1'', example_member 6 ''f2''],
      dependency_types = [\<lparr>DependencyType_id = PInt 1, DependencyType_type = PStr ''pip''\<rparr>],
      deployment_dependencies = [],
      next_id = 8, clock = 40\<rparr>"

definition example_dependency :: "string \<Rightarrow> kwargs" where
  "example_dependency n =
     [(''name'', PStr n), (''type'', PStr ''pip''), (''source'', PStr ''pypi''),
      (''version'', PStr ''1.0''), (''comment'', PStr ''pinned'')]"

text \<open>The insert statement of \<^verbatim>\<open>store_dependencies\<close> for that descriptor and deployment 2.\<close>

definition example_dependency_stmt :: "string \<Rightarrow> insert_stmt" where
  "example_dependency_stmt n =
     \<lparr>insert_into = DeploymentDependency, ins_values =
        [(''deployment_id'', Literal (PInt 2)),
         (''name'', Literal (PStr n)),
         (''source'', Literal (PStr ''pypi'')),
         (''local_source'', Literal PNone),
         (''version'', Literal (PStr ''1.0'')),
         (''dependency_type_id'', Scalar DependencyType ''id'' [(''type'', PStr ''pip'')])]\<rparr>"

text \<open>A file service that knows one directory.\<close>

definition example_dir_exists :: "string \<Rightarrow> string option \<Rightarrow> bool" where
  "example_dir_exists namespace path = (namespace = ''local'' \<and> path = Some ''/data'')"

section \<open>Validation\<close>

lemma validate_declared:
  assumes "declared columns kwargs"
  shows "validate_kwargs_exist columns func args kwargs w = func args kwargs w"
proof -
  from assms have "find (\<lambda>k. k \<notin> set columns) (map fst kwargs) = None"
    unfolding declared_def find_None_iff list_all_iff by blast
  then show ?thesis by (simp add: validate_kwargs_exist_def)
qed

lemma validate_undeclared:
  assumes "\<not> declared columns kwargs"
  shows "\<exists>k. k \<in> set (map fst kwargs) \<and> k \<notin> set columns
           \<and> validate_kwargs_exist columns func args kwargs w = (Inl (ValueError k), w)"
proof (cases "find (\<lambda>k. k \<notin> set columns) (map fst kwargs)")
  case None
  then have "declared columns kwargs"
    unfolding declared_def find_None_iff list_all_iff by blast
  with assms show ?thesis by simp
next
  case (Some k)
  then have "k \<in> set (map fst kwargs)" and "k \<notin> set columns"
    by (auto simp: find_Some_iff)
  with Some show ?thesis by (auto simp: validate_kwargs_exist_def)
qed

lemmas get_defs = get_model_def get_deployment_def get_latest_deployment_def get_project_def
  get_flow_def get_flow_of_flows_def get_dependencies_def

lemmas example_defs = example_database_def example_model_def example_deployment_def
  example_flow_def example_member_def world0_def

lemmas mem_defs = mem_db_def mem_select_def mem_select_Deployment_def matches_def
  Model_row_def Deployment_row_def Project_row_def Flow_row_def FlowOfFlows_row_def
  DependencyType_row_def DeploymentDependency_row_def

section \<open>Not found\<close>

text \<open>
  C1. For every entity with a get operation and every valid criteria set, when the driver's
  select returns zero rows the call raises that entity's not-found error, carrying the
  query, and returns no value: \<^verbatim>\<open>ModelNotFoundError\<close>, \<^verbatim>\<open>DeploymentNotFoundError\<close> (for
  \<^verbatim>\<open>get_deployment\<close> and \<^verbatim>\<open>get_latest_deployment\<close>), \<^verbatim>\<open>ProjectNotFoundError\<close>,
  \<^verbatim>\<open>FlowNotFoundError\<close>, \<^verbatim>\<open>FlowOfFlowsNotFoundError\<close>; and \<^verbatim>\<open>get_dependencies\<close> raises
  \<^verbatim>\<open>DeploymentNotFoundError\<close> when no dependency row is returned.
\<close>

theorem get_raises_not_found:
  "(declared (columns Model) kwargs
      \<and> db_select_Model db (criteria_query Model kwargs) (store w) = Inr [] \<longrightarrow>
    fst (get_model db columns [] kwargs w)
      = Inl (ModelNotFoundError (criteria_query Model kwargs)))
 \<and> (declared (columns Deployment) kwargs
      \<and> db_select_Deployment db (criteria_query Deployment kwargs) (store w) = Inr [] \<longrightarrow>
    fst (get_deployment db columns [] kwargs w)
      = Inl (DeploymentNotFoundError (criteria_query Deployment kwargs)))
 \<and> (declared (columns Deployment) kwargs
      \<and> db_select_Deployment db
          ((criteria_query Deployment kwargs)\<lparr>order_by_desc := Some ''deploy_date''\<rparr>) (store w)
          = Inr [] \<longrightarrow>
    fst (get_latest_deployment db columns [] kwargs w)
      = Inl (DeploymentNotFoundError
               ((criteria_query Deployment kwargs)\<lparr>order_by_desc := Some ''deploy_date''\<rparr>)))
 \<and> (declared (columns Project) kwargs
      \<and> db_select_Project db (criteria_query Project kwargs) (store w) = Inr [] \<longrightarrow>
    fst (get_project db columns [] kwargs w)
      = Inl (ProjectNotFoundError (criteria_query Project kwargs)))
 \<and> (declared (columns Flow) kwargs
      \<and> db_select_Flow db (criteria_query Flow kwargs) (store w) = Inr [] \<longrightarrow>
    fst (get_flow db columns [] kwargs w)
      = Inl (FlowNotFoundError (criteria_query Flow kwargs)))
 \<and> (declared (columns FlowOfFlows) kwargs
      \<and> db_select_FlowOfFlows db (criteria_query FlowOfFlows kwargs) (store w) = Inr [] \<longrightarrow>
    fst (get_flow_of_flows db columns [] kwargs w)
      = Inl (FlowOfFlowsNotFoundError (criteria_query FlowOfFlows kwargs)))
 \<and> (db_select_DeploymentDependency db (dependencies_query deployment_id) (store w) = Inr [] \<longrightarrow>
    fst (get_dependencies db [deployment_id] [] w)
      = Inl (DeploymentNotFoundError (dependencies_query deployment_id)))"
  by (simp add: get_defs validate_declared select_def criteria_query_def dependencies_query_def
      bind_args_def Let_def)

text \<open>On the small store: no model by this author, no such project, version or flow, and
  no dependency of deployment 2.\<close>

theorem get_raises_not_found_witness:
  "fst (get_model mem_db declared_columns [] [(''author'', PStr ''bob'')] (world0 example_database))
     = Inl (ModelNotFoundError (criteria_query Model [(''author'', PStr ''bob'')]))
 \<and> fst (get_project mem_db declared_columns [] [(''project_name'', PStr ''none'')]
          (world0 example_database))
     = Inl (ProjectNotFoundError (criteria_query Project [(''project_name'', PStr ''none'')]))
 \<and> fst (get_deployment mem_db declared_columns [] [(''version'', PStr ''9'')]
          (world0 example_database))
     = Inl (DeploymentNotFoundError (criteria_query Deployment [(''version'', PStr ''9'')]))
 \<and> fst (get_latest_deployment mem_db declared_columns [] [(''version'', PStr ''9'')]
          (world0 example_database))
     = Inl (DeploymentNotFoundError
              ((criteria_query Deployment [(''version'', PStr ''9'')])
                 \<lparr>order_by_desc := Some ''deploy_date''\<rparr>))
 \<and> fst (get_flow mem_db declared_columns [] [(''flow_id'', PStr ''f9'')]
          (world0 example_database))
     = Inl (FlowNotFoundError (criteria_query Flow [(''flow_id'', PStr ''f9'')]))
 \<and> fst (get_flow_of_flows mem_db declared_columns [] [(''flow_id'', PStr ''f9'')]
          (world0 example_database))
     = Inl (FlowOfFlowsNotFoundError (criteria_query FlowOfFlows [(''flow_id'', PStr ''f9'')]))
 \<and> fst (get_dependencies mem_db [PInt 2] [] (world0 example_database))
     = Inl (DeploymentNotFoundError (dependencies_query (PInt 2)))"
  using get_raises_not_found [of declared_columns "[(''author'', PStr ''bob'')]" mem_db
          "world0 example_database" "PInt 2"]
        get_raises_not_found [of declared_columns "[(''project_name'', PStr ''none'')]" mem_db
          "world0 example_database" "PInt 2"]
        get_raises_not_found [of declared_columns "[(''version'', PStr ''9'')]" mem_db
          "world0 example_database" "PInt 2"]
        get_raises_not_found [of declared_columns "[(''flow_id'', PStr ''f9'')]" mem_db
          "world0 example_database" "PInt 2"]
  by (simp add: declared_def declared_columns_def criteria_query_def dependencies_query_def
      mem_defs example_defs)

section \<open>Validation before any query\<close>

lemma get_model_undeclared:
  "\<not> declared (columns Model) kwargs \<Longrightarrow>
   \<exists>k. k \<in> set (map fst kwargs) \<and> k \<notin> set (columns Model)
     \<and> get_model db columns args kwargs w = (Inl (ValueError k), w)"
  unfolding get_model_def by (rule validate_undeclared)

lemma get_deployment_undeclared:
  "\<not> declared (columns Deployment) kwargs \<Longrightarrow>
   \<exists>k. k \<in> set (map fst kwargs) \<and> k \<notin> set (columns Deployment)
     \<and> get_deployment db columns args kwargs w = (Inl (ValueError k), w)"
  unfolding get_deployment_def by (rule validate_undeclared)

lemma get_latest_deployment_undeclared:
  "\<not> declared (columns Deployment) kwargs \<Longrightarrow>
   \<exists>k. k \<in> set (map fst kwargs) \<and> k \<notin> set (columns Deployment)
     \<and> get_latest_deployment db columns args kwargs w = (Inl (ValueError k), w)"
  unfolding get_latest_deployment_def by (rule validate_undeclared)

lemma get_project_undeclared:
  "\<not> declared (columns Project) kwargs \<Longrightarrow>
   \<exists>k. k \<in> set (map fst kwargs) \<and> k \<notin> set (columns Project)
     \<and> get_project db columns args kwargs w = (Inl (ValueError k), w)"
  unfolding get_project_def by (rule validate_undeclared)

lemma get_flow_undeclared:
  "\<not> declared (columns Flow) kwargs \<Longrightarrow>
   \<exists>k. k \<in> set (map fst kwargs) \<and> k \<notin> set (columns Flow)
     \<and> get_flow db columns args kwargs w = (Inl (ValueError k), w)"
  unfolding get_flow_def by (rule validate_undeclared)

lemma get_flow_of_flows_undeclared:
  "\<not> declared (columns FlowOfFlows) kwargs \<Longrightarrow>
   \<exists>k. k \<in> set (map fst kwargs) \<and> k \<notin> set (columns FlowOfFlows)
     \<and> get_flow_of_flows db columns args kwargs w = (Inl (ValueError k), w)"
  unfolding get_flow_of_flows_def by (rule validate_undeclared)

lemma store_model_undeclared:
  "\<not> declared (columns Model) kwargs \<Longrightarrow>
   \<exists>k. k \<in> set (map fst kwargs) \<and> k \<notin> set (columns Model)
     \<and> store_model db columns args kwargs w = (Inl (ValueError k), w)"
  unfolding store_model_def by (rule validate_undeclared)

text \<open>
  C2. A get operation called with a criteria set that has a name outside the declared
  columns of its entity raises the validation error for such a name and leaves the world
  as it was: the driver's log of calls has no new entry, so no select was issued.
\<close>

theorem undeclared_criterion_fails_before_query:
  "(\<not> declared (columns Model) kwargs \<longrightarrow>
      (\<exists>k. k \<in> set (map fst kwargs) \<and> k \<notin> set (columns Model)
         \<and> get_model db columns args kwargs w = (Inl (ValueError k), w)))
 \<and> (\<not> declared (columns Deployment) kwargs \<longrightarrow>
      (\<exists>k. k \<in> set (map fst kwargs) \<and> k \<notin> set (columns Deployment)
         \<and> get_deployment db columns args kwargs w = (Inl (ValueError k), w)))
 \<and> (\<not> declared (columns Deployment) kwargs \<longrightarrow>
      (\<exists>k. k \<in> set (map fst kwargs) \<and> k \<notin> set (columns Deployment)
         \<and> get_latest_deployment db columns args kwargs w = (Inl (ValueError k), w)))
 \<and> (\<not> declared (columns Project) kwargs \<longrightarrow>
      (\<exists>k. k \<in> set (map fst kwargs) \<and> k \<notin> set (columns Project)
         \<and> get_project db columns args kwargs w = (Inl (ValueError k), w)))
 \<and> (\<not> declared (columns Flow) kwargs \<longrightarrow>
      (\<exists>k. k \<in> set (map fst kwargs) \<and> k \<notin> set (columns Flow)
         \<and> get_flow db columns args kwargs w = (Inl (ValueError k), w)))
 \<and> (\<not> declared (columns FlowOfFlows) kwargs \<longrightarrow>
      (\<exists>k. k \<in> set (map fst kwargs) \<and> k \<notin> set (columns FlowOfFlows)
         \<and> get_flow_of_flows db columns args kwargs w = (Inl (ValueError k), w)))"
  by (intro conjI impI get_model_undeclared get_deployment_undeclared
      get_latest_deployment_undeclared get_project_undeclared get_flow_undeclared
      get_flow_of_flows_undeclared)

text \<open>On the small store, with the criterion \<^verbatim>\<open>bogus=1\<close>: the log of calls stays empty.\<close>

theorem undeclared_criterion_fails_before_query_witness:
  "get_model mem_db declared_columns [] [(''bogus'', PInt 1)] (world0 example_database)
     = (Inl (ValueError ''bogus''), world0 example_database)
 \<and> get_deployment mem_db declared_columns [] [(''bogus'', PInt 1)] (world0 example_database)
     = (Inl (ValueError ''bogus''), world0 example_database)
 \<and> get_latest_deployment mem_db declared_columns [] [(''bogus'', PInt 1)] (world0 example_database)
     = (Inl (ValueError ''bogus''), world0 example_database)
 \<and> get_project mem_db declared_columns [] [(''bogus'', PInt 1)] (world0 example_database)
     = (Inl (ValueError ''bogus''), world0 example_database)
 \<and> get_flow mem_db declared_columns [] [(''bogus'', PInt 1)] (world0 example_database)
     = (Inl (ValueError ''bogus''), world0 example_database)
 \<and> get_flow_of_flows mem_db declared_columns [] [(''bogus'', PInt 1)] (world0 example_database)
     = (Inl (ValueError ''bogus''), world0 example_database)
 \<and> calls (world0 example_database) = []"
  using undeclared_criterion_fails_before_query [of declared_columns "[(''bogus'', PInt 1)]"
          mem_db "[]" "world0 example_database"]
  by (simp add: declared_def declared_columns_def world0_def)

section \<open>Member flows of a flow of flows\<close>

text \<open>
  C6. When the criteria select the M rows of a FlowOfFlows grouping (M at least one), each
  row referencing one member flow, \<^verbatim>\<open>get_flow_of_flows\<close> returns exactly M records, and
  they are the member flows (the \<^verbatim>\<open>flow\<close> of each row, in order), of the type of flows and
  not of the grouping.
\<close>

theorem get_flow_of_flows_returns_members:
  "declared (columns FlowOfFlows) kwargs
     \<and> db_select_FlowOfFlows db (criteria_query FlowOfFlows kwargs) (store w) = Inr result
     \<and> result \<noteq> [] \<longrightarrow>
   (\<exists>member_flows. fst (get_flow_of_flows db columns [] kwargs w) = Inr member_flows
      \<and> member_flows = map FlowOfFlows_flow result
      \<and> length member_flows = length result)"
  by (simp add: get_flow_of_flows_def validate_declared select_def criteria_query_def Let_def)

text \<open>The grouping \<^verbatim>\<open>composite\<close> of the small store has the two members \<^verbatim>\<open>f1\<close> and
  \<^verbatim>\<open>f2\<close>.\<close>

theorem get_flow_of_flows_returns_members_witness:
  "fst (get_flow_of_flows mem_db declared_columns [] [(''parent_flow_id'', PStr ''composite'')]
          (world0 example_database))
     = Inr [example_flow ''f1'', example_flow ''f2'']"
  using get_flow_of_flows_returns_members [of declared_columns
          "[(''parent_flow_id'', PStr ''composite'')]" mem_db "world0 example_database"
          "[example_member 5 ''f1'', example_member 6 ''f2'']"]
  by (simp add: declared_def declared_columns_def criteria_query_def mem_defs example_defs)

section \<open>Several matching rows\<close>

text \<open>
  C8. When the driver returns more than one row, \<^verbatim>\<open>get_model\<close>, \<^verbatim>\<open>get_deployment\<close>,
  \<^verbatim>\<open>get_project\<close> and \<^verbatim>\<open>get_flow\<close> return the first row of the driver's order and log
  one warning, which names the key of that row; the call does not fail.
\<close>

theorem multiple_rows_warn_and_return_first:
  "(declared (columns Model) kwargs
      \<and> db_select_Model db (criteria_query Model kwargs) (store w) = Inr models_found
      \<and> 1 < length models_found \<longrightarrow>
    fst (get_model db columns [] kwargs w) = Inr (models_found ! 0)
      \<and> (\<exists>msg. warnings (snd (get_model db columns [] kwargs w))
            = warnings w @ [(msg, ''model_id'', Model_model_id (models_found ! 0))]))
 \<and> (declared (columns Deployment) kwargs
      \<and> db_select_Deployment db (criteria_query Deployment kwargs) (store w) = Inr deployments_found
      \<and> 1 < length deployments_found \<longrightarrow>
    fst (get_deployment db columns [] kwargs w) = Inr (deployments_found ! 0)
      \<and> (\<exists>msg. warnings (snd (get_deployment db columns [] kwargs w))
            = warnings w
              @ [(msg, ''deployment_id'', Deployment_deployment_id (deployments_found ! 0))]))
 \<and> (declared (columns Project) kwargs
      \<and> db_select_Project db (criteria_query Project kwargs) (store w) = Inr projects_found
      \<and> 1 < length projects_found \<longrightarrow>
    fst (get_project db columns [] kwargs w) = Inr (projects_found ! 0)
      \<and> (\<exists>msg. warnings (snd (get_project db columns [] kwargs w))
            = warnings w @ [(msg, ''name'', Project_project_name (projects_found ! 0))]))
 \<and> (declared (columns Flow) kwargs
      \<and> db_select_Flow db (criteria_query Flow kwargs) (store w) = Inr flows_found
      \<and> 1 < length flows_found \<longrightarrow>
    fst (get_flow db columns [] kwargs w) = Inr (flows_found ! 0)
      \<and> (\<exists>msg. warnings (snd (get_flow db columns [] kwargs w))
            = warnings w @ [(msg, ''flow_id'', Flow_flow_id (flows_found ! 0))]))"
  by (auto simp: get_defs validate_declared select_def criteria_query_def Let_def warning_def)

text \<open>On the small store each of the four has two or three matches.\<close>

theorem multiple_rows_warn_and_return_first_witness:
  "fst (get_model mem_db declared_columns [] [(''author'', PStr ''ada'')] (world0 example_database))
     = Inr (example_model 1 ''first'')
 \<and> length (warnings (snd (get_model mem_db declared_columns [] [(''author'', PStr ''ada'')]
      (world0 example_database)))) = 1
 \<and> fst (get_deployment mem_db declared_columns [] [(''model_id'', PInt 1)]
      (world0 example_database)) = Inr (example_deployment 2 20)
 \<and> fst (get_project mem_db declared_columns [] [(''description'', PStr ''p'')]
      (world0 example_database))
     = Inr \<lparr>Project_project_name = PStr ''proj'', Project_description = PStr ''p''\<rparr>
 \<and> fst (get_flow mem_db declared_columns [] [(''project_name'', PStr ''proj'')]
      (world0 example_database)) = Inr (example_flow ''f1'')"
  using multiple_rows_warn_and_return_first [where columns = declared_columns and db = mem_db
          and w = "world0 example_database" and kwargs = "[(''author'', PStr ''ada'')]"
          and models_found = "[example_model 1 ''first'', example_model 7 ''second'']"]
        multiple_rows_warn_and_return_first [where columns = declared_columns and db = mem_db
          and w = "world0 example_database" and kwargs = "[(''model_id'', PInt 1)]"
          and deployments_found
            = "[example_deployment 2 20, example_deployment 3 30, example_deployment 4 10]"]
        multiple_rows_warn_and_return_first [where columns = declared_columns and db = mem_db
          and w = "world0 example_database" and kwargs = "[(''description'', PStr ''p'')]"
          and projects_found
            = "[\<lparr>Project_project_name = PStr ''proj'', Project_description = PStr ''p''\<rparr>,
                \<lparr>Project_project_name = PStr ''other'', Project_description = PStr ''p''\<rparr>]"]
        multiple_rows_warn_and_return_first [where columns = declared_columns and db = mem_db
          and w = "world0 example_database" and kwargs = "[(''project_name'', PStr ''proj'')]"
          and flows_found = "[example_flow ''f1'', example_flow ''f2'']"]
  by (auto simp: declared_def declared_columns_def criteria_query_def mem_defs example_defs)

section \<open>Get operations only read\<close>

lemma get_model_frame:
  "store (snd (get_model db columns args kwargs w)) = store w
   \<and> (calls (snd (get_model db columns args kwargs w)) = calls w
        \<or> (\<exists>q. calls (snd (get_model db columns args kwargs w)) = calls w @ [Select q]))"
  by (auto simp: get_model_def validate_kwargs_exist_def select_def warning_def Let_def
      split: option.splits sum.splits)

lemma get_deployment_frame:
  "store (snd (get_deployment db columns args kwargs w)) = store w
   \<and> (calls (snd (get_deployment db columns args kwargs w)) = calls w
        \<or> (\<exists>q. calls (snd (get_deployment db columns args kwargs w)) = calls w @ [Select q]))"
  by (auto simp: get_deployment_def validate_kwargs_exist_def select_def warning_def Let_def
      split: option.splits sum.splits)

lemma get_latest_deployment_frame:
  "store (snd (get_latest_deployment db columns args kwargs w)) = store w
   \<and> (calls (snd (get_latest_deployment db columns args kwargs w)) = calls w
        \<or> (\<exists>q. calls (snd (get_latest_deployment db columns args kwargs w))
                = calls w @ [Select q]))"
  by (auto simp: get_latest_deployment_def validate_kwargs_exist_def select_def Let_def
      split: option.splits sum.splits)

lemma get_project_frame:
  "store (snd (get_project db columns args kwargs w)) = store w
   \<and> (calls (snd (get_project db columns args kwargs w)) = calls w
        \<or> (\<exists>q. calls (snd (get_project db columns args kwargs w)) = calls w @ [Select q]))"
  by (auto simp: get_project_def validate_kwargs_exist_def select_def warning_def Let_def
      split: option.splits sum.splits)

lemma get_flow_frame:
  "store (snd (get_flow db columns args kwargs w)) = store w
   \<and> (calls (snd (get_flow db columns args kwargs w)) = calls w
        \<or> (\<exists>q. calls (snd (get_flow db columns args kwargs w)) = calls w @ [Select q]))"
  by (auto simp: get_flow_def validate_kwargs_exist_def select_def warning_def Let_def
      split: option.splits sum.splits)

lemma get_flow_of_flows_frame:
  "store (snd (get_flow_of_flows db columns args kwargs w)) = store w
   \<and> (calls (snd (get_flow_of_flows db columns args kwargs w)) = calls w
        \<or> (\<exists>q. calls (snd (get_flow_of_flows db columns args kwargs w)) = calls w @ [Select q]))"
  by (auto simp: get_flow_of_flows_def validate_kwargs_exist_def select_def Let_def
      split: option.splits sum.splits)

lemma get_dependencies_frame:
  "store (snd (get_dependencies db args kwargs w)) = store w
   \<and> (calls (snd (get_dependencies db args kwargs w)) = calls w
        \<or> (\<exists>q. calls (snd (get_dependencies db args kwargs w)) = calls w @ [Select q]))"
  by (auto simp: get_dependencies_def select_def Let_def split: sum.splits list.splits)

text \<open>
  C10. Whatever the driver, the arguments and the starting world, and whether the call
  returns or raises, each get operation leaves the store as it was, and the driver has
  received either nothing or one select statement: never an insert.
\<close>

theorem get_operations_only_select:
  "(store (snd (get_model db columns args kwargs w)) = store w
    \<and> (calls (snd (get_model db columns args kwargs w)) = calls w
         \<or> (\<exists>q. calls (snd (get_model db columns args kwargs w)) = calls w @ [Select q])))
 \<and> (store (snd (get_deployment db columns args kwargs w)) = store w
    \<and> (calls (snd (get_deployment db columns args kwargs w)) = calls w
         \<or> (\<exists>q. calls (snd (get_deployment db columns args kwargs w)) = calls w @ [Select q])))
 \<and> (store (snd (get_latest_deployment db columns args kwargs w)) = store w
    \<and> (calls (snd (get_latest_deployment db columns args kwargs w)) = calls w
         \<or> (\<exists>q. calls (snd (get_latest_deployment db columns args kwargs w))
                 = calls w @ [Select q])))
 \<and> (store (snd (get_project db columns args kwargs w)) = store w
    \<and> (calls (snd (get_project db columns args kwargs w)) = calls w
         \<or> (\<exists>q. calls (snd (get_project db columns args kwargs w)) = calls w @ [Select q])))
 \<and> (store (snd (get_flow db columns args kwargs w)) = store w
    \<and> (calls (snd (get_flow db columns args kwargs w)) = calls w
         \<or> (\<exists>q. calls (snd (get_flow db columns args kwargs w)) = calls w @ [Select q])))
 \<and> (store (snd (get_flow_of_flows db columns args kwargs w)) = store w
    \<and> (calls (snd (get_flow_of_flows db columns args kwargs w)) = calls w
         \<or> (\<exists>q. calls (snd (get_flow_of_flows db columns args kwargs w))
                 = calls w @ [Select q])))
 \<and> (store (snd (get_dependencies db args kwargs w)) = store w
    \<and> (calls (snd (get_dependencies db args kwargs w)) = calls w
         \<or> (\<exists>q. calls (snd (get_dependencies db args kwargs w)) = calls w @ [Select q])))"
  by (intro conjI get_model_frame get_deployment_frame get_latest_deployment_frame
      get_project_frame get_flow_frame get_flow_of_flows_frame get_dependencies_frame)

text \<open>On the small store: a call that returns, one that raises not-found and one that fails
  validation.\<close>

theorem get_operations_only_select_witness:
  "store (snd (get_model mem_db declared_columns [] [(''author'', PStr ''ada'')]
      (world0 example_database))) = example_database
 \<and> store (snd (get_flow mem_db declared_columns [] [(''flow_id'', PStr ''f9'')]
      (world0 example_database))) = example_database
 \<and> store (snd (get_project mem_db declared_columns [] [(''bogus'', PInt 1)]
      (world0 example_database))) = example_database
 \<and> store (snd (get_dependencies mem_db [PInt 2] [] (world0 example_database)))
      = example_database"
  using get_operations_only_select [of mem_db declared_columns "[]" "[(''author'', PStr ''ada'')]"
          "world0 example_database"]
        get_operations_only_select [of mem_db declared_columns "[]" "[(''flow_id'', PStr ''f9'')]"
          "world0 example_database"]
        get_operations_only_select [of mem_db declared_columns "[]" "[(''bogus'', PInt 1)]"
          "world0 example_database"]
        get_operations_only_select [of mem_db declared_columns "[PInt 2]" "[]"
          "world0 example_database"]
  by (simp add: world0_def)

section \<open>The local run\<close>

text \<open>
  C5. \<^verbatim>\<open>get_run\<close> checks the backend's own \<^verbatim>\<open>working_dir\<close> attribute, not the working
  directory of the run configuration: with a backend directory that exists and a run
  configuration whose directory the file service reports as absent, it raises nothing and
  returns a run descriptor for the absent directory; with a backend that has no such
  attribute it raises \<^verbatim>\<open>AttributeError\<close>, which is no not-found error either.
\<close>

theorem get_run_checks_backend_directory:
  "example_dir_exists ''local'' (Some ''/missing'') = False
 \<and> get_run [(''working_dir'', Some ''/data'')]
      \<lparr>LocalRunConfig.env = [(''A'', ''1'')], working_dir = Some ''/missing''\<rparr> example_dir_exists
     = Inr \<lparr>LocalRun.env = [(''A'', ''1'')], working_dir = Some ''/missing''\<rparr>
 \<and> get_run []
      \<lparr>LocalRunConfig.env = [(''A'', ''1'')], working_dir = Some ''/missing''\<rparr> example_dir_exists
     = Inl (AttributeError ''working_dir'')"
  by (simp add: get_run_def example_dir_exists_def)

section \<open>The latest deployment\<close>

lemma sort_key_first:
  assumes "xs \<noteq> []"
  shows "sort_key f xs ! 0 \<in> set xs \<and> (\<forall>x \<in> set xs. f (sort_key f xs ! 0) \<le> f x)"
proof -
  from assms have "sort_key f xs \<noteq> []"
    by (metis length_sort length_0_conv)
  then obtain y ys where s: "sort_key f xs = y # ys"
    by (cases "sort_key f xs") auto
  have "sorted (map f (y # ys))"
    using sorted_sort_key [of f xs] by (simp only: s)
  then have le: "\<forall>z \<in> set ys. f y \<le> f z"
    by simp
  have mem: "set (y # ys) = set xs"
    using set_sort [of f xs] by (simp only: s)
  then have "y \<in> set xs"
    by auto
  moreover have "\<forall>x \<in> set xs. f y \<le> f x"
    using le mem by auto
  ultimately show ?thesis
    by (simp add: s)
qed

text \<open>
  C3. With the reference engine, for every valid criteria set that at least one deployment
  of the store matches, \<^verbatim>\<open>get_latest_deployment\<close> issues the select ordered by
  \<^verbatim>\<open>deploy_date\<close> descending and returns its first row: a matching deployment whose
  \<^verbatim>\<open>deploy_date\<close> is the maximum over all matching deployments.
\<close>

theorem get_latest_deployment_returns_latest:
  "declared (declared_columns Deployment) kwargs
     \<and> filter (matches Deployment_row kwargs) (deployments (store w)) \<noteq> [] \<longrightarrow>
   (\<exists>latest. fst (get_latest_deployment mem_db declared_columns [] kwargs w) = Inr latest
      \<and> latest \<in> set (filter (matches Deployment_row kwargs) (deployments (store w)))
      \<and> (\<forall>d \<in> set (filter (matches Deployment_row kwargs) (deployments (store w))).
            Deployment_deploy_date d \<le> Deployment_deploy_date latest))
   \<and> calls (snd (get_latest_deployment mem_db declared_columns [] kwargs w))
       = calls w @ [Select ((criteria_query Deployment kwargs)
                              \<lparr>order_by_desc := Some ''deploy_date''\<rparr>)]"
proof (intro impI, elim conjE)
  let ?found = "filter (matches Deployment_row kwargs) (deployments (store w))"
  let ?sorted = "sort_key (\<lambda>d. - Deployment_deploy_date d) ?found"
  assume valid: "declared (declared_columns Deployment) kwargs" and some: "?found \<noteq> []"
  have run: "get_latest_deployment mem_db declared_columns [] kwargs w
      = (Inr (?sorted ! 0),
         w\<lparr>calls := calls w @ [Select ((criteria_query Deployment kwargs)
                                        \<lparr>order_by_desc := Some ''deploy_date''\<rparr>)]\<rparr>)"
    using some
    by (simp add: get_latest_deployment_def validate_declared [OF valid] select_def
        criteria_query_def mem_db_def mem_select_Deployment_def Let_def)
  from sort_key_first [OF some, of "\<lambda>d. - Deployment_deploy_date d"]
  have "?sorted ! 0 \<in> set ?found"
    and "\<forall>d \<in> set ?found. Deployment_deploy_date d \<le> Deployment_deploy_date (?sorted ! 0)"
    by simp_all
  with run show "(\<exists>latest. fst (get_latest_deployment mem_db declared_columns [] kwargs w) = Inr latest
      \<and> latest \<in> set ?found
      \<and> (\<forall>d \<in> set ?found. Deployment_deploy_date d \<le> Deployment_deploy_date latest))
   \<and> calls (snd (get_latest_deployment mem_db declared_columns [] kwargs w))
       = calls w @ [Select ((criteria_query Deployment kwargs)
                              \<lparr>order_by_desc := Some ''deploy_date''\<rparr>)]"
    by simp
qed

text \<open>The small store holds, in this order, deployments of model 1 dated 20, 30 and 10: the
  one dated 30 is returned.\<close>

theorem get_latest_deployment_returns_latest_witness:
  "fst (get_latest_deployment mem_db declared_columns [] [(''model_id'', PInt 1)]
          (world0 example_database))
     = Inr (example_deployment 3 30)"
  using get_latest_deployment_returns_latest [of "[(''model_id'', PInt 1)]"
          "world0 example_database"]
  by (simp add: declared_def declared_columns_def criteria_query_def get_latest_deployment_def
      validate_kwargs_exist_def select_def Let_def mem_defs example_defs)

section \<open>Storing a model and reading it back\<close>

text \<open>
  C7 as stated fails with the reference engine when a model with the same author,
  laboratory, facility and beampath is already stored: \<^verbatim>\<open>store_model\<close> returns the new key
  8, and the following \<^verbatim>\<open>get_model\<close> finds three rows and returns the first, the model
  with key 1 and another description.
\<close>

theorem store_then_get_model_counterexample:
  "fst (store_model mem_db declared_columns
          [PStr ''ada'', PStr ''slac'', PStr ''lcls'', PStr ''cu_hxr'', PStr ''third''] []
          (world0 example_database))
     = Inr (PInt 8)
 \<and> fst (get_model mem_db declared_columns []
          [(''author'', PStr ''ada''), (''laboratory'', PStr ''slac''),
           (''facility'', PStr ''lcls''), (''beampath'', PStr ''cu_hxr'')]
          (snd (store_model mem_db declared_columns
                  [PStr ''ada'', PStr ''slac'', PStr ''lcls'', PStr ''cu_hxr'', PStr ''third''] []
                  (world0 example_database))))
     = Inr (example_model 1 ''first'')
 \<and> Model_model_id (example_model 1 ''first'') \<noteq> PInt 8
 \<and> Model_description (example_model 1 ''first'') \<noteq> PStr ''third''"
  by (simp add: store_model_def get_model_def validate_kwargs_exist_def bind_args_def
      insert_one_def select_def warning_def mem_insert_def execute_insert_def column_value_def
      declared_columns_def Let_def mem_defs example_defs)

text \<open>
  C7, amended. Whatever the driver, \<^verbatim>\<open>store_model\<close> returns the first element of the
  driver's insert result when that result is non-empty and \<^verbatim>\<open>None\<close> when it is empty.
  With the reference engine, when no stored model has the given author, laboratory,
  facility and beampath, \<^verbatim>\<open>store_model\<close> returns the new key, and the following
  \<^verbatim>\<open>get_model\<close> filtered by these four returns the record with that key and the five
  fields given.
\<close>

theorem store_then_get_model:
  "(db_insert db
       \<lparr>insert_into = Model, ins_values =
          [(''author'', Literal author), (''laboratory'', Literal laboratory),
           (''facility'', Literal facility), (''beampath'', Literal beampath),
           (''description'', Literal description)]\<rparr> (store w) = (Inr result, s) \<longrightarrow>
    fst (store_model db columns [author, laboratory, facility, beampath, description] [] w)
      = Inr (if length result \<noteq> 0 then result ! 0 else PNone))
 \<and> (filter (matches Model_row [(''author'', author), (''laboratory'', laboratory),
                               (''facility'', facility), (''beampath'', beampath)])
        (models (store m)) = [] \<longrightarrow>
    fst (store_model mem_db declared_columns
           [author, laboratory, facility, beampath, description] [] m)
      = Inr (PInt (next_id (store m)))
    \<and> fst (get_model mem_db declared_columns []
             [(''author'', author), (''laboratory'', laboratory),
              (''facility'', facility), (''beampath'', beampath)]
             (snd (store_model mem_db declared_columns
                     [author, laboratory, facility, beampath, description] [] m)))
      = Inr \<lparr>Model_model_id = PInt (next_id (store m)), Model_author = author,
             Model_laboratory = laboratory, Model_facility = facility,
             Model_beampath = beampath, Model_description = description\<rparr>)"
proof (intro conjI impI)
  assume "db_insert db
       \<lparr>insert_into = Model, ins_values =
          [(''author'', Literal author), (''laboratory'', Literal laboratory),
           (''facility'', Literal facility), (''beampath'', Literal beampath),
           (''description'', Literal description)]\<rparr> (store w) = (Inr result, s)"
  then show "fst (store_model db columns [author, laboratory, facility, beampath, description] [] w)
      = Inr (if length result \<noteq> 0 then result ! 0 else PNone)"
    by (simp add: store_model_def validate_kwargs_exist_def bind_args_def insert_one_def Let_def)
next
  assume fresh: "filter (matches Model_row [(''author'', author), (''laboratory'', laboratory),
                               (''facility'', facility), (''beampath'', beampath)])
        (models (store m)) = []"
  have stored: "store_model mem_db declared_columns
           [author, laboratory, facility, beampath, description] [] m
     = (Inr (PInt (next_id (store m))),
        m\<lparr>store := (store m)\<lparr>models := models (store m) @
               [\<lparr>Model_model_id = PInt (next_id (store m)), Model_author = author,
                 Model_laboratory = laboratory, Model_facility = facility,
                 Model_beampath = beampath, Model_description = description\<rparr>],
               next_id := next_id (store m) + 1\<rparr>,
           calls := calls m @ [Insert
              \<lparr>insert_into = Model, ins_values =
                 [(''author'', Literal author), (''laboratory'', Literal laboratory),
                  (''facility'', Literal facility), (''beampath'', Literal beampath),
                  (''description'', Literal description)]\<rparr>]\<rparr>)"
    by (simp add: store_model_def validate_kwargs_exist_def bind_args_def insert_one_def
        mem_db_def mem_insert_def execute_insert_def column_value_def Let_def)
  show "fst (store_model mem_db declared_columns
           [author, laboratory, facility, beampath, description] [] m)
      = Inr (PInt (next_id (store m)))"
    by (simp add: stored)
  have new: "matches Model_row [(''author'', author), (''laboratory'', laboratory),
                               (''facility'', facility), (''beampath'', beampath)]
       \<lparr>Model_model_id = PInt (next_id (store m)), Model_author = author,
         Model_laboratory = laboratory, Model_facility = facility,
         Model_beampath = beampath, Model_description = description\<rparr>"
    by (simp add: matches_def Model_row_def)
  show "fst (get_model mem_db declared_columns []
             [(''author'', author), (''laboratory'', laboratory),
              (''facility'', facility), (''beampath'', beampath)]
             (snd (store_model mem_db declared_columns
                     [author, laboratory, facility, beampath, description] [] m)))
      = Inr \<lparr>Model_model_id = PInt (next_id (store m)), Model_author = author,
             Model_laboratory = laboratory, Model_facility = facility,
             Model_beampath = beampath, Model_description = description\<rparr>"
    unfolding stored
    by (simp add: get_model_def validate_kwargs_exist_def declared_columns_def select_def
        mem_db_def mem_select_def fresh new Let_def)
qed

text \<open>On the empty store the first model gets key 1 and is read back.\<close>

theorem store_then_get_model_witness:
  "fst (store_model mem_db declared_columns
          [PStr ''ada'', PStr ''slac'', PStr ''lcls'', PStr ''cu_hxr'', PStr ''first''] []
          (world0 empty_database))
     = Inr (PInt 1)
 \<and> fst (get_model mem_db declared_columns []
          [(''author'', PStr ''ada''), (''laboratory'', PStr ''slac''),
           (''facility'', PStr ''lcls''), (''beampath'', PStr ''cu_hxr'')]
          (snd (store_model mem_db declared_columns
                  [PStr ''ada'', PStr ''slac'', PStr ''lcls'', PStr ''cu_hxr'', PStr ''first''] []
                  (world0 empty_database))))
     = Inr (example_model 1 ''first'')"
  using store_then_get_model [of mem_db "PStr ''ada''" "PStr ''slac''" "PStr ''lcls''"
          "PStr ''cu_hxr''" "PStr ''first''" "world0 empty_database" "[PInt 1]"
          "snd (mem_insert \<lparr>insert_into = Model, ins_values =
             [(''author'', Literal (PStr ''ada'')), (''laboratory'', Literal (PStr ''slac'')),
              (''facility'', Literal (PStr ''lcls'')), (''beampath'', Literal (PStr ''cu_hxr'')),
              (''description'', Literal (PStr ''first''))]\<rparr> empty_database)"
          declared_columns "world0 empty_database"]
  by (simp add: mem_db_def mem_insert_def execute_insert_def column_value_def
      empty_database_def world0_def example_model_def)

section \<open>Storing dependencies\<close>















section \<open>Which operations validate\<close>

lemma dependency_stmt_reads_five_keys:
  assumes "list_all (\<lambda>k. map_of dep k = map_of dep' k)
     [''type'', ''name'', ''source'', ''local_source'', ''version'']"
  shows "dependency_stmt deployment_id dep = dependency_stmt deployment_id dep'"
proof -
  from assms have "getitem dep ''type'' = getitem dep' ''type''"
    and "getitem dep ''name'' = getitem dep' ''name''"
    and "getitem dep ''source'' = getitem dep' ''source''"
    and "getitem dep ''version'' = getitem dep' ''version''"
    and "dict_get dep ''local_source'' = dict_get dep' ''local_source''"
    by (simp_all add: getitem_def dict_get_def)
  then show ?thesis
    by (simp only: dependency_stmt_def)
qed

lemma dependency_stmts_cong:
  "map (dependency_stmt deployment_id) deps = map (dependency_stmt deployment_id) deps' \<Longrightarrow>
   dependency_stmts deployment_id deps = dependency_stmts deployment_id deps'"
proof (induction deps arbitrary: deps')
  case Nil
  then show ?case by simp
next
  case (Cons dep deps)
  from Cons.prems obtain dep' rest where split: "deps' = dep' # rest"
    and first: "dependency_stmt deployment_id dep = dependency_stmt deployment_id dep'"
    and others: "map (dependency_stmt deployment_id) deps
                   = map (dependency_stmt deployment_id) rest"
    by (cases deps') auto
  from Cons.IH [OF others] first show ?case
    by (simp only: split dependency_stmts.simps)
qed

lemma bind_args_unexpected:
  "list_ex (\<lambda>k. k \<notin> set params) (map fst kwargs) \<Longrightarrow>
   bind_args params defaults args kwargs = Inl TypeError"
  by (auto simp: bind_args_def list_ex_iff)

text \<open>
  C9 as stated fails for \<^verbatim>\<open>store_dependencies\<close>: a descriptor with the keys \<^verbatim>\<open>type\<close> and
  \<^verbatim>\<open>comment\<close>, neither a declared column of DeploymentDependency, is not refused; its
  insert statement reaches the driver and a key comes back.
\<close>

theorem store_validation_counterexample:
  "\<not> declared (declared_columns DeploymentDependency) (example_dependency ''numpy'')
 \<and> fst (store_dependencies mem_db [example_dependency ''numpy''] (PInt 2)
          (world0 example_database)) = Inr (Some [PInt 8])
 \<and> calls (snd (store_dependencies mem_db [example_dependency ''numpy''] (PInt 2)
          (world0 example_database))) = [InsertMany [example_dependency_stmt ''numpy'']]"
  by (simp add: declared_def declared_columns_def store_dependencies_def dependency_stmt_def
      getitem_def dict_get_def insert_many_def mem_db_def mem_insert_many_def execute_insert_def
      column_value_def matches_def DependencyType_row_def example_dependency_def
      example_dependency_stmt_def example_database_def world0_def Let_def)

text \<open>
  C9, amended. Every store and get operation but \<^verbatim>\<open>store_dependencies\<close> checks the names
  it is given before any statement is issued, and on a refused name the world, with the
  driver's log of calls, is as before. \<^verbatim>\<open>store_model\<close> and the six get operations that
  take criteria validate the names of their keyword arguments against the declared columns
  of their entity: a name outside them raises the validation error. \<^verbatim>\<open>store_deployment\<close>,
  \<^verbatim>\<open>store_project\<close>, \<^verbatim>\<open>store_flow\<close> and \<^verbatim>\<open>get_dependencies\<close> take their fixed parameters
  only, the columns their statement sets or filters on: any other name raises
  \<^verbatim>\<open>TypeError\<close>. \<^verbatim>\<open>store_dependencies\<close> does not validate: it reads the keys \<^verbatim>\<open>type\<close>,
  \<^verbatim>\<open>name\<close>, \<^verbatim>\<open>source\<close>, \<^verbatim>\<open>local_source\<close> and \<^verbatim>\<open>version\<close> of each descriptor, and two
  descriptors that agree on these five give the same call.
\<close>

theorem validation_before_use:
  "(\<not> declared (columns Model) kwargs \<longrightarrow>
      (\<exists>k. k \<in> set (map fst kwargs) \<and> k \<notin> set (columns Model)
         \<and> store_model db columns args kwargs w = (Inl (ValueError k), w)))
 \<and> (\<not> declared (columns Model) kwargs \<longrightarrow>
      (\<exists>k. k \<in> set (map fst kwargs) \<and> k \<notin> set (columns Model)
         \<and> get_model db columns args kwargs w = (Inl (ValueError k), w)))
 \<and> (\<not> declared (columns Deployment) kwargs \<longrightarrow>
      (\<exists>k. k \<in> set (map fst kwargs) \<and> k \<notin> set (columns Deployment)
         \<and> get_deployment db columns args kwargs w = (Inl (ValueError k), w)))
 \<and> (\<not> declared (columns Deployment) kwargs \<longrightarrow>
      (\<exists>k. k \<in> set (map fst kwargs) \<and> k \<notin> set (columns Deployment)
         \<and> get_latest_deployment db columns args kwargs w = (Inl (ValueError k), w)))
 \<and> (\<not> declared (columns Project) kwargs \<longrightarrow>
      (\<exists>k. k \<in> set (map fst kwargs) \<and> k \<notin> set (columns Project)
         \<and> get_project db columns args kwargs w = (Inl (ValueError k), w)))
 \<and> (\<not> declared (columns Flow) kwargs \<longrightarrow>
      (\<exists>k. k \<in> set (map fst kwargs) \<and> k \<notin> set (columns Flow)
         \<and> get_flow db columns args kwargs w = (Inl (ValueError k), w)))
 \<and> (\<not> declared (columns FlowOfFlows) kwargs \<longrightarrow>
      (\<exists>k. k \<in> set (map fst kwargs) \<and> k \<notin> set (columns FlowOfFlows)
         \<and> get_flow_of_flows db columns args kwargs w = (Inl (ValueError k), w)))
 \<and> (list_all (\<lambda>k. map_of dep k = map_of dep' k)
        [''type'', ''name'', ''source'', ''local_source'', ''version''] \<longrightarrow>
      store_dependencies db (before @ dep # after) deployment_id w
        = store_dependencies db (before @ dep' # after) deployment_id w)
 \<and> (list_ex (\<lambda>k. k \<notin> set [''model_id'', ''version'', ''source'', ''sha256'', ''image'',
                             ''is_live'', ''asset_dir'']) (map fst kwargs) \<longrightarrow>
      store_deployment db args kwargs w = (Inl TypeError, w))
 \<and> (list_ex (\<lambda>k. k \<notin> set [''project_name'', ''description'']) (map fst kwargs) \<longrightarrow>
      store_project db args kwargs w = (Inl TypeError, w))
 \<and> (list_ex (\<lambda>k. k \<notin> set [''deployment_id'', ''flow_id'', ''flow_name'', ''project_name''])
        (map fst kwargs) \<longrightarrow>
      store_flow db args kwargs w = (Inl TypeError, w))
 \<and> (list_ex (\<lambda>k. k \<notin> set [''deployment_id'']) (map fst kwargs) \<longrightarrow>
      get_dependencies db args kwargs w = (Inl TypeError, w))"
proof (intro conjI impI store_model_undeclared get_model_undeclared get_deployment_undeclared
    get_latest_deployment_undeclared get_project_undeclared get_flow_undeclared
    get_flow_of_flows_undeclared)
  assume "list_all (\<lambda>k. map_of dep k = map_of dep' k)
        [''type'', ''name'', ''source'', ''local_source'', ''version'']"
  then have "dependency_stmt deployment_id dep = dependency_stmt deployment_id dep'"
    by (rule dependency_stmt_reads_five_keys)
  then have "dependency_stmts deployment_id (before @ dep # after)
      = dependency_stmts deployment_id (before @ dep' # after)"
    by (intro dependency_stmts_cong) simp
  then show "store_dependencies db (before @ dep # after) deployment_id w
        = store_dependencies db (before @ dep' # after) deployment_id w"
    by (simp add: store_dependencies_def)
next
  assume "list_ex (\<lambda>k. k \<notin> set [''model_id'', ''version'', ''source'', ''sha256'', ''image'',
                             ''is_live'', ''asset_dir'']) (map fst kwargs)"
  then show "store_deployment db args kwargs w = (Inl TypeError, w)"
    by (simp add: store_deployment_def bind_args_unexpected)
next
  assume "list_ex (\<lambda>k. k \<notin> set [''project_name'', ''description'']) (map fst kwargs)"
  then show "store_project db args kwargs w = (Inl TypeError, w)"
    by (simp add: store_project_def bind_args_unexpected)
next
  assume "list_ex (\<lambda>k. k \<notin> set [''deployment_id'', ''flow_id'', ''flow_name'', ''project_name''])
        (map fst kwargs)"
  then show "store_flow db args kwargs w = (Inl TypeError, w)"
    by (simp add: store_flow_def bind_args_unexpected)
next
  assume "list_ex (\<lambda>k. k \<notin> set [''deployment_id'']) (map fst kwargs)"
  then show "get_dependencies db args kwargs w = (Inl TypeError, w)"
    by (simp add: get_dependencies_def bind_args_unexpected)
qed

text \<open>On the small store: each call with the keyword \<^verbatim>\<open>bogus\<close> stops before the driver;
  the descriptor with and without its \<^verbatim>\<open>comment\<close> is stored alike.\<close>

theorem validation_before_use_witness:
  "store_model mem_db declared_columns [] [(''author'', PStr ''ada''), (''bogus'', PInt 1)]
      (world0 example_database)
     = (Inl (ValueError ''bogus''), world0 example_database)
 \<and> get_flow mem_db declared_columns [] [(''author'', PStr ''ada''), (''bogus'', PInt 1)]
      (world0 example_database)
     = (Inl (ValueError ''author''), world0 example_database)
 \<and> store_deployment mem_db [] [(''author'', PStr ''ada''), (''bogus'', PInt 1)]
      (world0 example_database)
     = (Inl TypeError, world0 example_database)
 \<and> store_project mem_db [] [(''author'', PStr ''ada''), (''bogus'', PInt 1)]
      (world0 example_database)
     = (Inl TypeError, world0 example_database)
 \<and> store_flow mem_db [] [(''author'', PStr ''ada''), (''bogus'', PInt 1)]
      (world0 example_database)
     = (Inl TypeError, world0 example_database)
 \<and> get_dependencies mem_db [] [(''author'', PStr ''ada''), (''bogus'', PInt 1)]
      (world0 example_database)
     = (Inl TypeError, world0 example_database)
 \<and> store_dependencies mem_db [example_dependency ''numpy''] (PInt 2) (world0 example_database)
     = store_dependencies mem_db [butlast (example_dependency ''numpy'')] (PInt 2)
         (world0 example_database)"
  using validation_before_use [of declared_columns
          "[(''author'', PStr ''ada''), (''bogus'', PInt 1)]" mem_db "[]"
          "world0 example_database" "example_dependency ''numpy''"
          "butlast (example_dependency ''numpy'')" "[]" "[]" "PInt 2"]
  by (simp add: declared_def declared_columns_def example_dependency_def store_model_def
      get_flow_def validate_kwargs_exist_def)

end
